theory Spec2Isabelle
  imports Main
begin

section \<open>Values, exceptions and the process state\<close>

text \<open>
  The module \<^verbatim>\<open>pydantic/plugin/schema_validator.py\<close> wraps the two entry points of the
  validation engine with plugin callbacks. Everything it handles is an opaque Python
  object: schemas, configs, settings, inputs, results and exceptions.

  Exceptions are values. The constructors are the classes the module names
  (\<^verbatim>\<open>NotImplementedError\<close>, \<^verbatim>\<open>AttributeError\<close>, \<^verbatim>\<open>TypeError\<close>, \<^verbatim>\<open>KeyError\<close>,
  \<^verbatim>\<open>RuntimeError\<close>, \<^verbatim>\<open>ValidationError\<close>); \<open>OtherError\<close> stands for an exception of any
  class that none of the module's handlers catches.
\<close>

datatype exn =
    NotImplementedError
  | AttributeError
  | TypeError
  | KeyError string
  | RuntimeError string
  | ValidationError string
  | OtherError string

datatype pyval =
    PNone
  | PInt int
  | PStr string
  | PExn exn
  | PList "pyval list"

fun is_ValidationError :: "exn \<Rightarrow> bool" where
  "is_ValidationError (ValidationError d) = True"
| "is_ValidationError e = False"

text \<open>
  The state of the process: the class variable \<^verbatim>\<open>_Plug._in_call\<close> (one set of strings
  shared by every \<^verbatim>\<open>_Plug\<close> instance) and \<open>world\<close>, everything else that callbacks,
  step constructors and the engine can read or change.
\<close>

record 'w state =
  in_call :: "string set"
  world :: 'w

text \<open>
  A Python callable takes its arguments and the state, and returns a value or raises,
  leaving a new state. A function object also carries \<^verbatim>\<open>__name__\<close> and
  \<^verbatim>\<open>__qualname__\<close>.
\<close>

type_synonym 'w pycall = "pyval list \<Rightarrow> 'w state \<Rightarrow> (exn + pyval) \<times> 'w state"

record 'w pyfunc =
  name :: string
  qualname :: string
  call :: "'w pycall"

text \<open>
  A step object is looked up by attribute name (\<^verbatim>\<open>getattr(on_step, callback_type)\<close>); a
  step type is called with a list of positional arguments and returns a step or raises;
  a plugin is looked up by attribute name too (\<^verbatim>\<open>getattr(plugin, step)\<close>). A missing
  attribute is \<open>None\<close>: the lookup raises \<^verbatim>\<open>AttributeError\<close>.
\<close>

type_synonym 'w step = "string \<rightharpoonup> 'w pyfunc"

type_synonym 'w step_type = "pyval list \<Rightarrow> 'w state \<Rightarrow> (exn + 'w step) \<times> 'w state"

type_synonym 'w plugin = "string \<rightharpoonup> 'w step_type"

text \<open>\<^verbatim>\<open>contextlib.suppress(*classes)\<close>: an exception of one of the classes ends the
  \<^verbatim>\<open>with\<close> block normally, any other exception goes on.\<close>

definition suppress :: "exn set \<Rightarrow> exn option \<Rightarrow> exn option" where
  "suppress classes r =
     (case r of
        None \<Rightarrow> None
      | Some e \<Rightarrow> if e \<in> classes then None else Some e)"

section \<open>\<^verbatim>\<open>_Plug\<close>\<close>

record 'w plug =
  schema :: pyval
  config :: pyval
  plugins :: "'w plugin list"
  plugin_settings :: pyval

text \<open>\<^verbatim>\<open>_Plug.EVENTS\<close>.\<close>

definition EVENTS :: "string \<rightharpoonup> string" where
  "EVENTS = [''validate_json'' \<mapsto> ''on_validate_json'',
             ''validate_python'' \<mapsto> ''on_validate_python'']"

text \<open>\<^verbatim>\<open>_Plug.__init__\<close>. The set of plugins is the list of its elements in iteration
  order.\<close>

definition Plug_init ::
  "pyval \<Rightarrow> pyval \<Rightarrow> 'w plugin list option \<Rightarrow> pyval \<Rightarrow> 'w plug" where
  "Plug_init schema' config' plugins' plugin_settings' =
     \<lparr>schema = schema',
      config = config',
      plugins = (case plugins' of Some ps \<Rightarrow> ps | None \<Rightarrow> []),
      plugin_settings = plugin_settings'\<rparr>"

subsection \<open>\<^verbatim>\<open>run_once\<close>\<close>

text \<open>
  \<^verbatim>\<open>run_once\<close> is a generator under \<^verbatim>\<open>contextlib.contextmanager\<close>. Entering the
  \<^verbatim>\<open>with\<close> block runs the generator to its first \<^verbatim>\<open>yield\<close>: \<open>run_once_enter\<close> returns
  what is yielded (\<open>None\<close> for the sentinel, the callback otherwise).

  Leaving the block resumes the generator where it is suspended: \<open>run_once_exit\<close> takes
  what had been yielded and the exception with which the block ends, if any. On a
  normal exit the code after the \<^verbatim>\<open>yield\<close> runs: \<^verbatim>\<open>return\<close> after the sentinel,
  \<^verbatim>\<open>self._in_call.remove(_callback_key)\<close> after the callback (\<^verbatim>\<open>set.remove\<close> raises
  \<^verbatim>\<open>KeyError\<close> on a missing element). On an exception the context manager throws it
  into the generator at the \<^verbatim>\<open>yield\<close>; no \<^verbatim>\<open>try\<close> statement encloses either
  \<^verbatim>\<open>yield\<close>, so the generator ends there with that exception and the statements after
  the \<^verbatim>\<open>yield\<close> do not run. The result is the exception that leaves the \<^verbatim>\<open>with\<close>
  statement, if any.
\<close>

definition run_once_enter :: "'w pyfunc \<Rightarrow> 'w state \<Rightarrow> 'w pyfunc option \<times> 'w state" where
  "run_once_enter func s =
     (let callback_key = qualname func in
      if callback_key \<in> in_call s then (None, s)
      else (Some func, s\<lparr>in_call := insert callback_key (in_call s)\<rparr>))"

fun run_once_exit ::
  "'w pyfunc \<Rightarrow> 'w pyfunc option \<Rightarrow> exn option \<Rightarrow> 'w state \<Rightarrow> exn option \<times> 'w state" where
  "run_once_exit func None None s = (None, s)"
| "run_once_exit func None (Some e) s = (Some e, s)"
| "run_once_exit func (Some yielded) None s =
     (if qualname func \<in> in_call s
      then (None, s\<lparr>in_call := in_call s - {qualname func}\<rparr>)
      else (Some (KeyError (qualname func)), s))"
| "run_once_exit func (Some yielded) (Some e) s = (Some e, s)"

subsection \<open>\<^verbatim>\<open>run_callbacks\<close>\<close>

text \<open>
  One iteration of the loop of \<^verbatim>\<open>run_callbacks\<close>: the \<^verbatim>\<open>with\<close> statement with
  \<^verbatim>\<open>contextlib.suppress(NotImplementedError)\<close> outside and \<^verbatim>\<open>self.run_once(callback)\<close>
  inside. The result is the exception that escapes the iteration, if any.
\<close>

definition run_callback :: "'w pyfunc \<Rightarrow> pyval list \<Rightarrow> 'w state \<Rightarrow> exn option \<times> 'w state" where
  "run_callback callback args s =
     (case run_once_enter callback s of
        (None, s1) \<Rightarrow>
          (case run_once_exit callback None None s1 of
             (r, s2) \<Rightarrow> (suppress {NotImplementedError} r, s2))
      | (Some callback_once, s1) \<Rightarrow>
          (case call callback_once args s1 of
             (Inl e, s2) \<Rightarrow>
               (case run_once_exit callback (Some callback_once) (Some e) s2 of
                  (r, s3) \<Rightarrow> (suppress {NotImplementedError} r, s3))
           | (Inr v, s2) \<Rightarrow>
               (case run_once_exit callback (Some callback_once) None s2 of
                  (r, s3) \<Rightarrow> (suppress {NotImplementedError} r, s3))))"

text \<open>The callable that \<^verbatim>\<open>run_callbacks(callbacks)\<close> returns.\<close>

fun run_callbacks :: "'w pyfunc list \<Rightarrow> 'w pycall" where
  "run_callbacks [] args s = (Inr PNone, s)"
| "run_callbacks (callback # callbacks) args s =
     (case run_callback callback args s of
        (Some e, s1) \<Rightarrow> (Inl e, s1)
      | (None, s1) \<Rightarrow> run_callbacks callbacks args s1)"

subsection \<open>\<^verbatim>\<open>gather_calls\<close>\<close>

text \<open>
  The body of the \<^verbatim>\<open>with contextlib.suppress(AttributeError, TypeError)\<close> block for
  one plugin: the exception that ends it (if any), the list \<^verbatim>\<open>calls\<close> and the state.
\<close>

definition gather_plugin ::
  "'w plug \<Rightarrow> string \<Rightarrow> string \<Rightarrow> 'w plugin \<Rightarrow> 'w pyfunc list \<Rightarrow> 'w state
     \<Rightarrow> exn option \<times> 'w pyfunc list \<times> 'w state" where
  "gather_plugin self step callback_type plugin calls s =
     (case plugin step of
        None \<Rightarrow> (Some AttributeError, calls, s)
      | Some step_type \<Rightarrow>
          (case step_type [schema self, config self, plugin_settings self] s of
             (Inl e, s1) \<Rightarrow> (Some e, calls, s1)
           | (Inr on_step, s1) \<Rightarrow>
               (case on_step callback_type of
                  None \<Rightarrow> (Some AttributeError, calls, s1)
                | Some cb \<Rightarrow> (None, calls @ [cb], s1))))"

fun gather_loop ::
  "'w plug \<Rightarrow> string \<Rightarrow> string \<Rightarrow> 'w plugin list \<Rightarrow> 'w pyfunc list \<Rightarrow> 'w state
     \<Rightarrow> (exn + 'w pyfunc list) \<times> 'w state" where
  "gather_loop self step callback_type [] calls s = (Inr calls, s)"
| "gather_loop self step callback_type (plugin # rest) calls s =
     (case gather_plugin self step callback_type plugin calls s of
        (r, calls1, s1) \<Rightarrow>
          (case suppress {AttributeError, TypeError} r of
             Some e \<Rightarrow> (Inl e, s1)
           | None \<Rightarrow> gather_loop self step callback_type rest calls1 s1))"

definition gather_calls ::
  "'w plug \<Rightarrow> 'w pyfunc \<Rightarrow> string \<Rightarrow> 'w state \<Rightarrow> (exn + 'w pyfunc list) \<times> 'w state" where
  "gather_calls self func callback_type s =
     (case EVENTS (name func) of
        None \<Rightarrow> (Inl (RuntimeError (''Unknown event for '' @ name func)), s)
      | Some step \<Rightarrow> gather_loop self step callback_type (plugins self) [] s)"

subsection \<open>\<^verbatim>\<open>prepare_enter\<close>, \<^verbatim>\<open>prepare_on_success\<close>, \<^verbatim>\<open>prepare_on_error\<close>\<close>

definition prepare_enter ::
  "'w plug \<Rightarrow> 'w pyfunc \<Rightarrow> 'w state \<Rightarrow> (exn + 'w pycall) \<times> 'w state" where
  "prepare_enter self func s =
     (case gather_calls self func ''enter'' s of
        (Inl e, s1) \<Rightarrow> (Inl e, s1)
      | (Inr enter_calls, s1) \<Rightarrow> (Inr (run_callbacks enter_calls), s1))"

definition prepare_on_success ::
  "'w plug \<Rightarrow> 'w pyfunc \<Rightarrow> 'w state \<Rightarrow> (exn + 'w pycall) \<times> 'w state" where
  "prepare_on_success self func s =
     (case gather_calls self func ''on_success'' s of
        (Inl e, s1) \<Rightarrow> (Inl e, s1)
      | (Inr success_calls, s1) \<Rightarrow> (Inr (run_callbacks success_calls), s1))"

definition prepare_on_error ::
  "'w plug \<Rightarrow> 'w pyfunc \<Rightarrow> 'w state \<Rightarrow> (exn + 'w pycall) \<times> 'w state" where
  "prepare_on_error self func s =
     (case gather_calls self func ''on_error'' s of
        (Inl e, s1) \<Rightarrow> (Inl e, s1)
      | (Inr error_calls, s1) \<Rightarrow> (Inr (run_callbacks error_calls), s1))"

subsection \<open>\<^verbatim>\<open>__call__\<close>\<close>

text \<open>The inner function \<^verbatim>\<open>wrapper\<close> of \<^verbatim>\<open>_Plug.__call__\<close>, closed over \<^verbatim>\<open>enter\<close>,
  \<^verbatim>\<open>on_success\<close>, \<^verbatim>\<open>on_error\<close> and \<^verbatim>\<open>func\<close>.\<close>

definition wrapper :: "'w pycall \<Rightarrow> 'w pycall \<Rightarrow> 'w pycall \<Rightarrow> 'w pyfunc \<Rightarrow> 'w pycall" where
  "wrapper enter on_success on_error func args s =
     (case enter args s of
        (Inl e, s1) \<Rightarrow> (Inl e, s1)
      | (Inr u, s1) \<Rightarrow>
          (case call func args s1 of
             (Inl error, s2) \<Rightarrow>
               (if is_ValidationError error then
                  (case on_error [PExn error] s2 of
                     (Inl e, s3) \<Rightarrow> (Inl e, s3)
                   | (Inr u', s3) \<Rightarrow> (Inl error, s3))
                else (Inl error, s2))
           | (Inr result, s2) \<Rightarrow>
               (case on_success [result] s2 of
                  (Inl e, s3) \<Rightarrow> (Inl e, s3)
                | (Inr u', s3) \<Rightarrow> (Inr result, s3))))"

text \<open>\<^verbatim>\<open>_Plug.__call__\<close>: the three lists are gathered here, once, and
  \<^verbatim>\<open>functools.wraps(func)\<close> gives the wrapper the names of \<^verbatim>\<open>func\<close>.\<close>

definition plug_call ::
  "'w plug \<Rightarrow> 'w pyfunc \<Rightarrow> 'w state \<Rightarrow> (exn + 'w pyfunc) \<times> 'w state" where
  "plug_call self func s =
     (case prepare_enter self func s of
        (Inl e, s1) \<Rightarrow> (Inl e, s1)
      | (Inr enter, s1) \<Rightarrow>
          (case prepare_on_success self func s1 of
             (Inl e, s2) \<Rightarrow> (Inl e, s2)
           | (Inr on_success, s2) \<Rightarrow>
               (case prepare_on_error self func s2 of
                  (Inl e, s3) \<Rightarrow> (Inl e, s3)
                | (Inr on_error, s3) \<Rightarrow>
                    (Inr (func\<lparr>call := wrapper enter on_success on_error func\<rparr>), s3))))"

section \<open>The engine, \<^verbatim>\<open>PluggableSchemaValidator\<close> and \<^verbatim>\<open>create_schema_validator\<close>\<close>

text \<open>
  \<^verbatim>\<open>pydantic_core.SchemaValidator\<close> is outside the module. An instance is the pair of
  its two entry points; its constructor is a parameter \<open>new_sv\<close> of the functions below,
  and may raise. The bound methods carry the names that \<open>EVENTS\<close> is keyed on.
\<close>

record 'w SchemaValidator =
  sv_validate_json :: "'w pycall"
  sv_validate_python :: "'w pycall"

definition validate_json_method :: "'w SchemaValidator \<Rightarrow> 'w pyfunc" where
  "validate_json_method sv =
     \<lparr>name = ''validate_json'', qualname = ''SchemaValidator.validate_json'',
      call = sv_validate_json sv\<rparr>"

definition validate_python_method :: "'w SchemaValidator \<Rightarrow> 'w pyfunc" where
  "validate_python_method sv =
     \<lparr>name = ''validate_python'', qualname = ''SchemaValidator.validate_python'',
      call = sv_validate_python sv\<rparr>"

record 'w PluggableSchemaValidator =
  schema_validator :: "'w SchemaValidator"
  plug :: "'w plug"
  validate_json :: "'w pyfunc"
  validate_python :: "'w pyfunc"

text \<open>\<^verbatim>\<open>PluggableSchemaValidator.__init__\<close>.\<close>

definition PluggableSchemaValidator_init ::
  "(pyval \<Rightarrow> pyval \<Rightarrow> exn + 'w SchemaValidator) \<Rightarrow> pyval \<Rightarrow> pyval \<Rightarrow> 'w plugin list \<Rightarrow> pyval
     \<Rightarrow> 'w state \<Rightarrow> (exn + 'w PluggableSchemaValidator) \<times> 'w state" where
  "PluggableSchemaValidator_init new_sv schema' config' plugins' plugin_settings' s =
     (case new_sv schema' config' of
        Inl e \<Rightarrow> (Inl e, s)
      | Inr sv \<Rightarrow>
          (let p = Plug_init schema' config' (Some plugins') plugin_settings' in
           case plug_call p (validate_json_method sv) s of
             (Inl e, s1) \<Rightarrow> (Inl e, s1)
           | (Inr vj, s1) \<Rightarrow>
               (case plug_call p (validate_python_method sv) s1 of
                  (Inl e, s2) \<Rightarrow> (Inl e, s2)
                | (Inr vp, s2) \<Rightarrow>
                    (Inr \<lparr>schema_validator = sv, plug = p,
                          validate_json = vj, validate_python = vp\<rparr>, s2))))"

text \<open>What \<^verbatim>\<open>create_schema_validator\<close> returns: the engine's validator itself, or the
  pluggable one.\<close>

datatype 'w validator =
    Plain "'w SchemaValidator"
  | Pluggable "'w PluggableSchemaValidator"

text \<open>\<^verbatim>\<open>create_schema_validator\<close>. The set \<^verbatim>\<open>plugins\<close> of \<^verbatim>\<open>._loader\<close> is a parameter,
  the list of its elements; the empty set is false.\<close>

definition create_schema_validator ::
  "(pyval \<Rightarrow> pyval \<Rightarrow> exn + 'w SchemaValidator) \<Rightarrow> 'w plugin list \<Rightarrow> pyval \<Rightarrow> pyval \<Rightarrow> pyval
     \<Rightarrow> 'w state \<Rightarrow> (exn + 'w validator) \<times> 'w state" where
  "create_schema_validator new_sv loader_plugins schema' config' plugin_settings' s =
     (if loader_plugins \<noteq> [] then
        (case PluggableSchemaValidator_init new_sv schema' config' loader_plugins
                plugin_settings' s of
           (Inl e, s1) \<Rightarrow> (Inl e, s1)
         | (Inr v, s1) \<Rightarrow> (Inr (Pluggable v), s1))
      else
        (case new_sv schema' config' of
           Inl e \<Rightarrow> (Inl e, s)
         | Inr sv \<Rightarrow> (Inr (Plain sv), s)))"

text \<open>The attributes \<^verbatim>\<open>validate_json\<close> and \<^verbatim>\<open>validate_python\<close> of the returned
  object.\<close>

fun validator_validate_json :: "'w validator \<Rightarrow> 'w pyfunc" where
  "validator_validate_json (Plain sv) = validate_json_method sv"
| "validator_validate_json (Pluggable v) = validate_json v"

fun validator_validate_python :: "'w validator \<Rightarrow> 'w pyfunc" where
  "validator_validate_python (Plain sv) = validate_python_method sv"
| "validator_validate_python (Pluggable v) = validate_python v"

section \<open>Example observers and an example engine\<close>

text \<open>
  Concrete plugins, callbacks and an engine on which the functions above are run. The
  world is a log, a list of values: a logging callable appends one entry holding its tag
  and the arguments it receives.
\<close>

text \<open>The bound method \<open>nm\<close> of an instance of the class \<open>cls\<close>: its
  \<^verbatim>\<open>__qualname__\<close> is \<^verbatim>\<open>cls.nm\<close>.\<close>

definition bound_method :: "string \<Rightarrow> string \<Rightarrow> 'w pycall \<Rightarrow> 'w pyfunc" where
  "bound_method cls nm c = \<lparr>name = nm, qualname = cls @ ''.'' @ nm, call = c\<rparr>"

text \<open>A callable that changes the world only, and returns \<^verbatim>\<open>None\<close>.\<close>

definition world_call :: "(pyval list \<Rightarrow> 'w \<Rightarrow> 'w) \<Rightarrow> 'w pycall" where
  "world_call f args s = (Inr PNone, s\<lparr>world := f args (world s)\<rparr>)"

definition log_call :: "string \<Rightarrow> (pyval list) pycall" where
  "log_call tag args s = (Inr PNone, s\<lparr>world := world s @ [PList (PStr tag # args)]\<rparr>)"

definition raise_call :: "string \<Rightarrow> exn \<Rightarrow> (pyval list) pycall" where
  "raise_call tag e args s = (Inl e, s\<lparr>world := world s @ [PList (PStr tag # args)]\<rparr>)"

text \<open>A callback whose body runs the validation \<open>validate\<close> on the input \<open>a\<close>, and
  ends as that validation ends.\<close>

definition validating_callback ::
  "string \<Rightarrow> string \<Rightarrow> 'w pycall \<Rightarrow> pyval list \<Rightarrow> 'w pyfunc" where
  "validating_callback nm k validate a = \<lparr>name = nm, qualname = k, call = (\<lambda>args. validate a)\<rparr>"

text \<open>A step class whose \<^verbatim>\<open>__init__\<close> takes \<^verbatim>\<open>(schema, config, plugin_settings)\<close>: a
  call with another number of arguments raises \<^verbatim>\<open>TypeError\<close>. The second one logs the
  arguments of each construction.\<close>

definition step_type_of :: "'w step \<Rightarrow> 'w step_type" where
  "step_type_of st args s = (if length args = 3 then (Inr st, s) else (Inl TypeError, s))"

definition recording_step_type :: "(pyval list) step \<Rightarrow> (pyval list) step_type" where
  "recording_step_type st args s =
     (Inr st, s\<lparr>world := world s @ [PList (PStr ''new'' # args)]\<rparr>)"

text \<open>A step class whose \<^verbatim>\<open>__init__\<close> takes no argument but \<^verbatim>\<open>self\<close>.\<close>

definition no_arg_step_type :: "'w step \<Rightarrow> 'w step_type" where
  "no_arg_step_type st args s = (if args = [] then (Inr st, s) else (Inl TypeError, s))"

text \<open>A plugin that uses one step class for both events.\<close>

definition plugin_of :: "'w step_type \<Rightarrow> 'w plugin" where
  "plugin_of t = [''on_validate_json'' \<mapsto> t, ''on_validate_python'' \<mapsto> t]"

text \<open>An engine for the schema "an integer": it logs the call, returns the integer,
  raises \<^verbatim>\<open>ValidationError\<close> on another input and \<^verbatim>\<open>TypeError\<close> when the input is
  missing.\<close>

fun int_result :: "pyval list \<Rightarrow> exn + pyval" where
  "int_result [] = Inl TypeError"
| "int_result [PInt n] = Inr (PInt n)"
| "int_result args = Inl (ValidationError ''int_parsing'')"

definition int_validate :: "string \<Rightarrow> (pyval list) pycall" where
  "int_validate entry args s =
     (int_result args, s\<lparr>world := world s @ [PList (PStr entry # args)]\<rparr>)"

definition int_sv :: "(pyval list) SchemaValidator" where
  "int_sv = \<lparr>sv_validate_json = int_validate ''validate_json'',
             sv_validate_python = int_validate ''validate_python''\<rparr>"

definition int_engine :: "pyval \<Rightarrow> pyval \<Rightarrow> exn + (pyval list) SchemaValidator" where
  "int_engine schema' config' = Inr int_sv"

definition s0 :: "(pyval list) state" where
  "s0 = \<lparr>in_call = {}, world = []\<rparr>"

text \<open>Plugin A: \<^verbatim>\<open>enter\<close> signals "not implemented". Plugin B: \<^verbatim>\<open>enter\<close> logs.\<close>

definition plugin_A :: "(pyval list) plugin" where
  "plugin_A = plugin_of (step_type_of
     [''enter'' \<mapsto> bound_method ''StepA'' ''enter'' (raise_call ''A'' NotImplementedError)])"

definition plugin_B :: "(pyval list) plugin" where
  "plugin_B = plugin_of (step_type_of
     [''enter'' \<mapsto> bound_method ''StepB'' ''enter'' (log_call ''B'')])"

text \<open>Plugin C: \<^verbatim>\<open>enter\<close> logs. Plugin T: its step class cannot be constructed with
  three arguments. Plugin E: \<^verbatim>\<open>on_error\<close> fails. Plugin R: its step class logs each
  construction. Two plugins made by \<open>same_name_plugin\<close> come from modules that both call
  their step class \<^verbatim>\<open>OnValidate\<close>.\<close>

definition plugin_C :: "(pyval list) plugin" where
  "plugin_C = plugin_of (step_type_of
     [''enter'' \<mapsto> bound_method ''StepC'' ''enter'' (log_call ''C'')])"

definition plugin_T :: "(pyval list) plugin" where
  "plugin_T = plugin_of (no_arg_step_type
     [''enter'' \<mapsto> bound_method ''StepT'' ''enter'' (log_call ''T'')])"

definition plugin_E :: "(pyval list) plugin" where
  "plugin_E = plugin_of (step_type_of
     [''on_error'' \<mapsto> bound_method ''StepE'' ''on_error'' (raise_call ''E'' (OtherError ''boom''))])"

definition plugin_R :: "(pyval list) plugin" where
  "plugin_R = plugin_of (recording_step_type
     [''enter'' \<mapsto> bound_method ''StepR'' ''enter'' (log_call ''R'')])"

definition same_name_plugin :: "string \<Rightarrow> (pyval list) plugin" where
  "same_name_plugin tag = plugin_of (step_type_of
     [''enter'' \<mapsto> bound_method ''OnValidate'' ''enter'' (log_call tag)])"

text \<open>The callbacks of one phase, the second of which fails.\<close>

definition failing_phase :: "string \<Rightarrow> (pyval list) pyfunc list" where
  "failing_phase slot =
     [bound_method ''StepB'' slot (log_call ''B'')]
       @ bound_method ''StepX'' slot (raise_call ''X'' (OtherError ''boom''))
       # [bound_method ''StepC'' slot (log_call ''C'')]"

section \<open>Basic facts\<close>

lemmas model_defs =
  create_schema_validator_def PluggableSchemaValidator_init_def plug_call_def
  prepare_enter_def prepare_on_success_def prepare_on_error_def gather_calls_def EVENTS_def
  gather_plugin_def suppress_def Plug_init_def wrapper_def run_callback_def run_once_enter_def
  validate_json_method_def validate_python_method_def Let_def

lemmas example_defs =
  bound_method_def world_call_def log_call_def raise_call_def validating_callback_def
  step_type_of_def recording_step_type_def no_arg_step_type_def plugin_of_def
  int_validate_def int_sv_def int_engine_def s0_def plugin_A_def plugin_B_def plugin_C_def
  plugin_T_def plugin_E_def plugin_R_def same_name_plugin_def failing_phase_def

lemma run_callback_in_flight:
  "qualname cb \<in> in_call s \<Longrightarrow> run_callback cb args s = (None, s)"
  by (simp add: run_callback_def run_once_enter_def suppress_def)

lemma run_callback_returns:
  assumes "qualname cb \<notin> in_call s"
    and "call cb args (s\<lparr>in_call := insert (qualname cb) (in_call s)\<rparr>) = (Inr v, s2)"
    and "qualname cb \<in> in_call s2"
  shows "run_callback cb args s = (None, s2\<lparr>in_call := in_call s2 - {qualname cb}\<rparr>)"
  using assms by (simp add: run_callback_def run_once_enter_def suppress_def)

lemma run_callback_raises:
  assumes "qualname cb \<notin> in_call s"
    and "call cb args (s\<lparr>in_call := insert (qualname cb) (in_call s)\<rparr>) = (Inl e, s2)"
  shows "run_callback cb args s = (suppress {NotImplementedError} (Some e), s2)"
  using assms by (simp add: run_callback_def run_once_enter_def)

lemma run_callbacks_append:
  "run_callbacks (xs @ ys) args s =
     (case run_callbacks xs args s of
        (Inl e, s1) \<Rightarrow> (Inl e, s1)
      | (Inr v, s1) \<Rightarrow> run_callbacks ys args s1)"
  by (induction xs arbitrary: s) (auto split: prod.splits option.splits sum.splits)

lemma gather_loop_append:
  "gather_loop self step ct (ps @ qs) calls s =
     (case gather_loop self step ct ps calls s of
        (Inl e, s1) \<Rightarrow> (Inl e, s1)
      | (Inr calls1, s1) \<Rightarrow> gather_loop self step ct qs calls1 s1)"
  by (induction ps arbitrary: calls s) (auto split: prod.splits option.splits sum.splits)

lemma wrapper_no_callbacks:
  "wrapper (run_callbacks []) (run_callbacks []) (run_callbacks []) func = call func"
  by (rule ext, rule ext) (auto simp: wrapper_def split: prod.splits sum.splits)

lemma log_call_world_call:
  "log_call tag = world_call (\<lambda>args w. w @ [PList (PStr tag # args)])"
  by (intro ext) (simp add: log_call_def world_call_def)

lemma run_callbacks_world_calls:
  "\<forall>cb\<in>set cbs. qualname cb \<notin> in_call s \<and> call cb = world_call (f cb) \<Longrightarrow>
   run_callbacks cbs args s = (Inr PNone, s\<lparr>world := fold (\<lambda>cb. f cb args) cbs (world s)\<rparr>)"
proof (induction cbs arbitrary: s)
  case Nil
  then show ?case by simp
next
  case (Cons cb cbs)
  have k: "qualname cb \<notin> in_call s" and c: "call cb = world_call (f cb)"
    using Cons.prems by simp_all
  have one: "run_callback cb args s = (None, s\<lparr>world := f cb args (world s)\<rparr>)"
    using k c by (simp add: run_callback_def run_once_enter_def suppress_def world_call_def)
  have rest: "\<forall>cb'\<in>set cbs. qualname cb' \<notin> in_call (s\<lparr>world := f cb args (world s)\<rparr>)
      \<and> call cb' = world_call (f cb')"
    using Cons.prems by simp
  show ?case
    using Cons.IH [OF rest] one by simp
qed

lemma gather_plugin_plugins_irrelevant:
  "gather_plugin (self\<lparr>plugins := ps\<rparr>) step ct p calls s = gather_plugin self step ct p calls s"
  by (simp add: gather_plugin_def split: option.splits)

lemma gather_loop_plugins_irrelevant:
  "gather_loop (self\<lparr>plugins := ps\<rparr>) step ct qs calls s = gather_loop self step ct qs calls s"
  by (induction qs arbitrary: calls s)
    (simp_all add: gather_plugin_plugins_irrelevant split: prod.splits option.splits)

lemma gather_loop_skip:
  assumes "(p step = None \<and> sq = sp) \<or>
       (\<exists>f e. p step = Some f
          \<and> f [schema self, config self, plugin_settings self] sp = (Inl e, sq)
          \<and> e \<in> {AttributeError, TypeError})"
  shows "gather_loop self step ct (p # post) calls sp = gather_loop self step ct post calls sq"
  using assms by (auto simp: gather_plugin_def suppress_def)

lemma pluggable_without_plugins:
  "PluggableSchemaValidator_init new_sv schema' config' [] settings s =
     (case new_sv schema' config' of
        Inl e \<Rightarrow> (Inl e, s)
      | Inr sv \<Rightarrow>
          (Inr \<lparr>schema_validator = sv,
                plug = Plug_init schema' config' (Some []) settings,
                validate_json = validate_json_method sv,
                validate_python = validate_python_method sv\<rparr>, s))"
  by (simp add: PluggableSchemaValidator_init_def plug_call_def prepare_enter_def
      prepare_on_success_def prepare_on_error_def gather_calls_def EVENTS_def Plug_init_def
      validate_json_method_def validate_python_method_def wrapper_no_callbacks
      split: sum.splits)

section \<open>The in-flight set\<close>

text \<open>
  C1. The claim: a key is in the in-flight set exactly while its callback executes;
  \<^verbatim>\<open>run_once\<close> adds the key before it yields the callback and removes it when the scope
  exits, on every path, also when the callback raises.

  The code removes the key only on the normal path. Here a callback raises: when
  \<^verbatim>\<open>run_callbacks\<close> has ended, with that exception, the key \<^verbatim>\<open>Step.enter\<close> is still in
  the set, and no callback is executing.
\<close>

theorem key_left_in_flight_when_callback_raises:
  "run_callbacks [bound_method ''Step'' ''enter'' (raise_call ''boom'' (OtherError ''boom''))]
     [PInt 1] s0 =
   (Inl (OtherError ''boom''),
    \<lparr>in_call = {''Step.enter''}, world = [PList [PStr ''boom'', PInt 1]]\<rparr>)"
  by (simp add: model_defs example_defs)

text \<open>
  C2. The claim: a callback that raises \<^verbatim>\<open>NotImplementedError\<close> is a no-op for that
  call only; the wrapped call proceeds, the other callbacks of the phase run, and the
  callback is invoked again on every later wrapped call.

  Two wrapped calls in a row, with plugins A and B. In the first, A's \<^verbatim>\<open>enter\<close> is
  invoked and raises, B's \<^verbatim>\<open>enter\<close> runs, the engine validates and the value is returned;
  the key of A's \<^verbatim>\<open>enter\<close> stays in the in-flight set. In the second, A's \<^verbatim>\<open>enter\<close> is
  not invoked: the log gains B's entry and the engine's only.
\<close>

theorem not_implemented_callback_skipped_on_later_calls:
  "(case create_schema_validator int_engine [plugin_A, plugin_B] PNone PNone PNone s0 of
      (Inl e, s1) \<Rightarrow> False
    | (Inr v, s1) \<Rightarrow>
        (case call (validator_validate_python v) [PInt 5] s1 of
           (r1, s2) \<Rightarrow>
             (case call (validator_validate_python v) [PInt 7] s2 of
                (r2, s3) \<Rightarrow>
                  r1 = Inr (PInt 5) \<and>
                  world s2 = [PList [PStr ''A'', PInt 5], PList [PStr ''B'', PInt 5],
                              PList [PStr ''validate_python'', PInt 5]] \<and>
                  in_call s2 = {''StepA.enter''} \<and>
                  r2 = Inr (PInt 7) \<and>
                  world s3 = world s2 @ [PList [PStr ''B'', PInt 7],
                                        PList [PStr ''validate_python'', PInt 7]])))"
  by (simp add: model_defs example_defs)

text \<open>
  C3. While a callback is in flight, a wrapped validation call made from inside it does
  not invoke that callback again; when the outer invocation completes normally the key
  is released, and the next wrapped call invokes the callback as usual.

  The outer callback, with key \<open>k\<close>, runs a wrapped validation whose \<^verbatim>\<open>enter\<close> list holds
  the callback with the same key and any body \<open>b\<close>. The engine returns and leaves the
  in-flight set alone. Then \<open>b\<close> is never run (the result does not depend on it), the
  state is the engine's with the in-flight set as it was before the call, the key is
  not in it, and \<^verbatim>\<open>run_once\<close> yields the callback itself the next time.
\<close>

theorem nested_invocation_skipped_and_key_released:
  assumes "k \<notin> in_call s"
    and "call func a (s\<lparr>in_call := insert k (in_call s)\<rparr>) = (Inr v, t)"
    and "in_call t = insert k (in_call s)"
  shows "run_callbacks
           [validating_callback nm k
              (wrapper (run_callbacks [\<lparr>name = nm, qualname = k, call = b\<rparr>])
                 (run_callbacks []) (run_callbacks []) func) a] args s
         = (Inr PNone, t\<lparr>in_call := in_call s\<rparr>)
       \<and> k \<notin> in_call (t\<lparr>in_call := in_call s\<rparr>)
       \<and> fst (run_once_enter \<lparr>name = nm, qualname = k, call = b\<rparr> (t\<lparr>in_call := in_call s\<rparr>))
           = Some \<lparr>name = nm, qualname = k, call = b\<rparr>"
  using assms
  by (simp add: run_callback_def run_once_enter_def suppress_def wrapper_def
      validating_callback_def)

text \<open>An instance: the \<^verbatim>\<open>enter\<close> callback of step A validates the input 5 from inside
  itself. The log holds the engine's entry of the nested call and no entry of the inner
  \<^verbatim>\<open>enter\<close>; the in-flight set is empty again.\<close>

theorem nested_invocation_skipped_and_key_released_witness:
  "run_callbacks
     [validating_callback ''enter'' ''StepA.enter''
        (wrapper (run_callbacks [\<lparr>name = ''enter'', qualname = ''StepA.enter'',
                                   call = log_call ''inner''\<rparr>])
           (run_callbacks []) (run_callbacks []) (validate_python_method int_sv)) [PInt 5]]
     [PInt 7] s0
   = (Inr PNone, \<lparr>in_call = {}, world = [PList [PStr ''validate_python'', PInt 5]]\<rparr>)"
proof -
  let ?t = "\<lparr>in_call = {''StepA.enter''}, world = [PList [PStr ''validate_python'', PInt 5]]\<rparr>"
  have k: "''StepA.enter'' \<notin> in_call s0"
    by (simp add: s0_def)
  have eng: "call (validate_python_method int_sv) [PInt 5]
      (s0\<lparr>in_call := insert ''StepA.enter'' (in_call s0)\<rparr>) = (Inr (PInt 5), ?t)"
    by (simp add: model_defs example_defs)
  have keep: "in_call ?t = insert ''StepA.enter'' (in_call s0)"
    by (simp add: s0_def)
  show ?thesis
    using nested_invocation_skipped_and_key_released [OF k eng keep,
        where nm = "''enter''" and b = "log_call ''inner''" and args = "[PInt 7]"]
    by (simp add: s0_def)
qed

text \<open>
  C4 (as amended). The reentrancy key of a callback is its \<^verbatim>\<open>__qualname__\<close>: the same
  string every time the callback is guarded. With the first callback in flight, a
  second callback is refused exactly when it has the same qualified name (or its own
  key was in flight before): callbacks with different qualified names get different
  keys, and callbacks with the same qualified name collide, whichever observer, entry
  point or wrapped callable they belong to.
\<close>

theorem reentrancy_key_is_qualname:
  assumes "qualname c \<notin> in_call s"
  shows "run_once_enter c s = (Some c, s\<lparr>in_call := insert (qualname c) (in_call s)\<rparr>)
     \<and> ((fst (run_once_enter c' (snd (run_once_enter c s))) = None)
          = (qualname c' = qualname c \<or> qualname c' \<in> in_call s))"
  using assms by (auto simp: run_once_enter_def Let_def)

theorem reentrancy_key_is_qualname_witness:
  "fst (run_once_enter (bound_method ''OnValidate'' ''enter'' (log_call ''second''))
          (snd (run_once_enter (bound_method ''OnValidate'' ''enter'' (log_call ''first'')) s0))) = None
   \<and> fst (run_once_enter (bound_method ''StepB'' ''enter'' (log_call ''B''))
          (snd (run_once_enter (bound_method ''OnValidate'' ''enter'' (log_call ''first'')) s0)))
       = Some (bound_method ''StepB'' ''enter'' (log_call ''B''))"
proof -
  let ?c = "bound_method ''OnValidate'' ''enter'' (log_call ''first'')"
  have k: "qualname ?c \<notin> in_call s0"
    by (simp add: s0_def)
  show ?thesis
    using reentrancy_key_is_qualname [OF k,
        where c' = "bound_method ''OnValidate'' ''enter'' (log_call ''second'')"]
      reentrancy_key_is_qualname [OF k, where c' = "bound_method ''StepB'' ''enter'' (log_call ''B'')"]
    by (simp add: run_once_enter_def Let_def example_defs)
qed

text \<open>
  C4 as stated fails: the key is not distinct for distinct (observer, entry point, slot)
  triples. Two different observers whose step classes are both called \<^verbatim>\<open>OnValidate\<close>
  resolve, for \<^verbatim>\<open>validate_python\<close> and the slot \<^verbatim>\<open>enter\<close>, to two callbacks that behave
  differently and have the same key: with the first in flight the second is refused.
  One observer resolves to the same key for \<^verbatim>\<open>validate_json\<close> and \<^verbatim>\<open>validate_python\<close>.
\<close>

theorem reentrancy_key_shared_by_distinct_triples:
  "(case gather_calls
           (Plug_init PNone PNone (Some [same_name_plugin ''first'', same_name_plugin ''second''])
              PNone)
           (validate_python_method int_sv) ''enter'' s0 of
      (Inr [c, c'], sa) \<Rightarrow>
         qualname c = qualname c' \<and> call c [] s0 \<noteq> call c' [] s0
         \<and> fst (run_once_enter c' (snd (run_once_enter c s0))) = None
    | _ \<Rightarrow> False)
   \<and> map qualname (projr (fst (gather_calls
           (Plug_init PNone PNone (Some [same_name_plugin ''first'']) PNone)
           (validate_json_method int_sv) ''enter'' s0)))
     = map qualname (projr (fst (gather_calls
           (Plug_init PNone PNone (Some [same_name_plugin ''first'']) PNone)
           (validate_python_method int_sv) ''enter'' s0)))
   \<and> map qualname (projr (fst (gather_calls
           (Plug_init PNone PNone (Some [same_name_plugin ''first'']) PNone)
           (validate_json_method int_sv) ''enter'' s0))) = [''OnValidate.enter'']"
  by (simp add: model_defs example_defs)

text \<open>
  C10. When the guard yields the sentinel because the key of a callback is in flight,
  only that callback is skipped: the callbacks after it run, from the very state the
  callbacks before it left, and the phase ends as they end.
\<close>

theorem in_flight_callback_skipped_phase_continues:
  assumes "run_callbacks pre args s = (Inr u, sp)"
    and "qualname cb \<in> in_call sp"
  shows "run_once_enter cb sp = (None, sp)
       \<and> run_callbacks (pre @ cb # post) args s = run_callbacks post args sp"
  using assms by (simp add: run_callbacks_append run_callback_in_flight run_once_enter_def)

theorem in_flight_callback_skipped_phase_continues_witness:
  "run_callbacks
     ([bound_method ''StepB'' ''enter'' (log_call ''B'')]
        @ bound_method ''StepA'' ''enter'' (log_call ''A'')
        # [bound_method ''StepC'' ''enter'' (log_call ''C'')])
     [PInt 5] \<lparr>in_call = {''StepA.enter''}, world = []\<rparr>
   = (Inr PNone, \<lparr>in_call = {''StepA.enter''},
                   world = [PList [PStr ''B'', PInt 5], PList [PStr ''C'', PInt 5]]\<rparr>)"
proof -
  let ?s = "\<lparr>in_call = {''StepA.enter''}, world = []\<rparr> :: (pyval list) state"
  let ?sp = "\<lparr>in_call = {''StepA.enter''}, world = [PList [PStr ''B'', PInt 5]]\<rparr>"
  let ?pre = "[bound_method ''StepB'' ''enter'' (log_call ''B'')]"
  let ?cb = "bound_method ''StepA'' ''enter'' (log_call ''A'')"
  let ?post = "[bound_method ''StepC'' ''enter'' (log_call ''C'')]"
  have pre: "run_callbacks ?pre [PInt 5] ?s = (Inr PNone, ?sp)"
    by (simp add: model_defs example_defs)
  have fl: "qualname ?cb \<in> in_call ?sp"
    by (simp add: example_defs)
  have "run_callbacks (?pre @ ?cb # ?post) [PInt 5] ?s = run_callbacks ?post [PInt 5] ?sp"
    using in_flight_callback_skipped_phase_continues [OF pre fl] by blast
  also have "\<dots> = (Inr PNone, \<lparr>in_call = {''StepA.enter''},
                   world = [PList [PStr ''B'', PInt 5], PList [PStr ''C'', PInt 5]]\<rparr>)"
    by (simp add: model_defs example_defs)
  finally show ?thesis .
qed

section \<open>Failures of callbacks and of the engine\<close>

text \<open>
  C8. An exception other than \<^verbatim>\<open>NotImplementedError\<close> raised from inside a callback body
  is not swallowed. The callbacks \<open>pre\<close> have returned, the callback \<open>cb\<close> is invoked (its
  key is not in flight) and raises \<open>e\<close>: the phase ends with \<open>e\<close> in the state the callback
  left, whatever the remaining callbacks \<open>post\<close> are, so none of them runs; and the
  wrapped entry point ends with \<open>e\<close> in that state, be the phase \<^verbatim>\<open>enter\<close> (the engine is
  not called), \<^verbatim>\<open>on_success\<close> or \<^verbatim>\<open>on_error\<close>.
\<close>

theorem callback_failure_propagates:
  assumes "run_callbacks pre args s = (Inr u, sp)"
    and "qualname cb \<notin> in_call sp"
    and "call cb args (sp\<lparr>in_call := insert (qualname cb) (in_call sp)\<rparr>) = (Inl e, sx)"
    and "e \<noteq> NotImplementedError"
  shows "run_callbacks (pre @ cb # post) args s = (Inl e, sx)
       \<and> wrapper (run_callbacks (pre @ cb # post)) on_success on_error func args s = (Inl e, sx)
       \<and> (enter a si = (Inr ur, si') \<and> call func a si' = (Inr result, s) \<and> args = [result]
            \<longrightarrow> wrapper enter (run_callbacks (pre @ cb # post)) on_error func a si = (Inl e, sx))
       \<and> (enter a si = (Inr ur, si') \<and> call func a si' = (Inl (ValidationError d), s)
              \<and> args = [PExn (ValidationError d)]
            \<longrightarrow> wrapper enter on_success (run_callbacks (pre @ cb # post)) func a si = (Inl e, sx))"
proof -
  have one: "run_callback cb args sp = (Some e, sx)"
    using assms(2-4) by (simp add: run_callback_raises suppress_def)
  have phase: "run_callbacks (pre @ cb # post) args s = (Inl e, sx)"
    using assms(1) one by (simp add: run_callbacks_append)
  show ?thesis
    using phase by (auto simp: wrapper_def)
qed

text \<open>An instance: of three callbacks the second fails. As \<^verbatim>\<open>on_success\<close> callbacks of
  a validation of 5, and as \<^verbatim>\<open>on_error\<close> callbacks of a validation of the string x, the
  first is logged, the second is logged and its exception comes out of the wrapped call,
  the third is not logged.\<close>

theorem callback_failure_propagates_witness:
  "run_callbacks (failing_phase ''on_success'') [PInt 5]
     \<lparr>in_call = {}, world = [PList [PStr ''validate_python'', PInt 5]]\<rparr>
   = (Inl (OtherError ''boom''),
      \<lparr>in_call = {''StepX.on_success''},
       world = [PList [PStr ''validate_python'', PInt 5], PList [PStr ''B'', PInt 5],
                PList [PStr ''X'', PInt 5]]\<rparr>)
   \<and> wrapper (run_callbacks []) (run_callbacks (failing_phase ''on_success'')) (run_callbacks [])
        (validate_python_method int_sv) [PInt 5] s0
   = (Inl (OtherError ''boom''),
      \<lparr>in_call = {''StepX.on_success''},
       world = [PList [PStr ''validate_python'', PInt 5], PList [PStr ''B'', PInt 5],
                PList [PStr ''X'', PInt 5]]\<rparr>)
   \<and> wrapper (run_callbacks []) (run_callbacks []) (run_callbacks (failing_phase ''on_error''))
        (validate_python_method int_sv) [PStr ''x''] s0
   = (Inl (OtherError ''boom''),
      \<lparr>in_call = {''StepX.on_error''},
       world = [PList [PStr ''validate_python'', PStr ''x''],
                PList [PStr ''B'', PExn (ValidationError ''int_parsing'')],
                PList [PStr ''X'', PExn (ValidationError ''int_parsing'')]]\<rparr>)"
proof -
  have ent: "run_callbacks [] args s0 = (Inr PNone, s0)" for args
    by simp
  have ne: "OtherError ''boom'' \<noteq> NotImplementedError"
    by simp
  have success:
    "run_callbacks (failing_phase ''on_success'') [PInt 5]
       \<lparr>in_call = {}, world = [PList [PStr ''validate_python'', PInt 5]]\<rparr>
     = (Inl (OtherError ''boom''),
        \<lparr>in_call = {''StepX.on_success''},
         world = [PList [PStr ''validate_python'', PInt 5], PList [PStr ''B'', PInt 5],
                  PList [PStr ''X'', PInt 5]]\<rparr>)
     \<and> wrapper (run_callbacks []) (run_callbacks (failing_phase ''on_success''))
          (run_callbacks []) (validate_python_method int_sv) [PInt 5] s0
     = (Inl (OtherError ''boom''),
        \<lparr>in_call = {''StepX.on_success''},
         world = [PList [PStr ''validate_python'', PInt 5], PList [PStr ''B'', PInt 5],
                  PList [PStr ''X'', PInt 5]]\<rparr>)"
  proof -
    let ?s = "\<lparr>in_call = {}, world = [PList [PStr ''validate_python'', PInt 5]]\<rparr>
        :: (pyval list) state"
    let ?sp = "\<lparr>in_call = {}, world = [PList [PStr ''validate_python'', PInt 5],
        PList [PStr ''B'', PInt 5]]\<rparr> :: (pyval list) state"
    let ?sx = "\<lparr>in_call = {''StepX.on_success''},
        world = [PList [PStr ''validate_python'', PInt 5], PList [PStr ''B'', PInt 5],
                 PList [PStr ''X'', PInt 5]]\<rparr> :: (pyval list) state"
    let ?pre = "[bound_method ''StepB'' ''on_success'' (log_call ''B'')]"
    let ?cb = "bound_method ''StepX'' ''on_success'' (raise_call ''X'' (OtherError ''boom''))"
    let ?post = "[bound_method ''StepC'' ''on_success'' (log_call ''C'')]"
    have pre: "run_callbacks ?pre [PInt 5] ?s = (Inr PNone, ?sp)"
      by (simp add: model_defs example_defs)
    have nf: "qualname ?cb \<notin> in_call ?sp"
      by (simp add: example_defs)
    have body: "call ?cb [PInt 5] (?sp\<lparr>in_call := insert (qualname ?cb) (in_call ?sp)\<rparr>)
        = (Inl (OtherError ''boom''), ?sx)"
      by (simp add: example_defs)
    have eng: "call (validate_python_method int_sv) [PInt 5] s0 = (Inr (PInt 5), ?s)"
      by (simp add: model_defs example_defs)
    show ?thesis
      using callback_failure_propagates [OF pre nf body ne,
          where post = ?post and enter = "run_callbacks []" and a = "[PInt 5]" and si = s0
            and ur = PNone and si' = s0 and func = "validate_python_method int_sv"
            and result = "PInt 5" and on_error = "run_callbacks []"]
        ent eng
      by (simp add: failing_phase_def)
  qed
  have error:
    "wrapper (run_callbacks []) (run_callbacks []) (run_callbacks (failing_phase ''on_error''))
        (validate_python_method int_sv) [PStr ''x''] s0
     = (Inl (OtherError ''boom''),
        \<lparr>in_call = {''StepX.on_error''},
         world = [PList [PStr ''validate_python'', PStr ''x''],
                  PList [PStr ''B'', PExn (ValidationError ''int_parsing'')],
                  PList [PStr ''X'', PExn (ValidationError ''int_parsing'')]]\<rparr>)"
  proof -
    let ?a = "[PExn (ValidationError ''int_parsing'')]"
    let ?s = "\<lparr>in_call = {}, world = [PList [PStr ''validate_python'', PStr ''x'']]\<rparr>
        :: (pyval list) state"
    let ?sp = "\<lparr>in_call = {}, world = [PList [PStr ''validate_python'', PStr ''x''],
        PList [PStr ''B'', PExn (ValidationError ''int_parsing'')]]\<rparr> :: (pyval list) state"
    let ?sx = "\<lparr>in_call = {''StepX.on_error''},
        world = [PList [PStr ''validate_python'', PStr ''x''],
                 PList [PStr ''B'', PExn (ValidationError ''int_parsing'')],
                 PList [PStr ''X'', PExn (ValidationError ''int_parsing'')]]\<rparr>
        :: (pyval list) state"
    let ?pre = "[bound_method ''StepB'' ''on_error'' (log_call ''B'')]"
    let ?cb = "bound_method ''StepX'' ''on_error'' (raise_call ''X'' (OtherError ''boom''))"
    let ?post = "[bound_method ''StepC'' ''on_error'' (log_call ''C'')]"
    have pre: "run_callbacks ?pre ?a ?s = (Inr PNone, ?sp)"
      by (simp add: model_defs example_defs)
    have nf: "qualname ?cb \<notin> in_call ?sp"
      by (simp add: example_defs)
    have body: "call ?cb ?a (?sp\<lparr>in_call := insert (qualname ?cb) (in_call ?sp)\<rparr>)
        = (Inl (OtherError ''boom''), ?sx)"
      by (simp add: example_defs)
    have eng: "call (validate_python_method int_sv) [PStr ''x''] s0
        = (Inl (ValidationError ''int_parsing''), ?s)"
      by (simp add: model_defs example_defs)
    show ?thesis
      using callback_failure_propagates [OF pre nf body ne,
          where post = ?post and enter = "run_callbacks []" and a = "[PStr ''x'']" and si = s0
            and ur = PNone and si' = s0 and func = "validate_python_method int_sv"
            and d = "''int_parsing''" and on_success = "run_callbacks []"]
        ent eng
      by (simp add: failing_phase_def)
  qed
  show ?thesis
    using success error by blast
qed

text \<open>
  C5 (as amended). The enter phase has returned and the engine raises \<open>err\<close>.
  If \<open>err\<close> is a \<^verbatim>\<open>ValidationError\<close>, the \<^verbatim>\<open>on_error\<close> callbacks are run, under the
  reentrancy guard, with exactly that error as their one argument; the original error is
  re-raised unchanged when that phase returns, and an exception that escapes an
  \<^verbatim>\<open>on_error\<close> callback is raised in its place. In particular, when no \<^verbatim>\<open>on_error\<close>
  callback is in flight and each one only changes the world and returns, every one of
  them is applied to that error, in order, and the original error is re-raised.
  If \<open>err\<close> is of another type, it propagates at once, in the state the engine left:
  whatever the \<^verbatim>\<open>on_error\<close> callable is, it is not invoked.
\<close>

theorem validation_error_runs_on_error_then_reraises:
  assumes "enter args s = (Inr u, se)"
    and "call func args se = (Inl err, sv)"
  shows "(is_ValidationError err \<longrightarrow>
            wrapper enter on_success (run_callbacks cbs) func args s =
              (case run_callbacks cbs [PExn err] sv of
                 (Inl e, sx) \<Rightarrow> (Inl e, sx)
               | (Inr v, sx) \<Rightarrow> (Inl err, sx)))
       \<and> (is_ValidationError err
            \<and> (\<forall>cb\<in>set cbs. qualname cb \<notin> in_call sv \<and> call cb = world_call (f cb)) \<longrightarrow>
            wrapper enter on_success (run_callbacks cbs) func args s =
              (Inl err, sv\<lparr>world := fold (\<lambda>cb. f cb [PExn err]) cbs (world sv)\<rparr>))
       \<and> (\<not> is_ValidationError err \<longrightarrow>
            wrapper enter on_success on_error func args s = (Inl err, sv))"
proof -
  have general: "wrapper enter on_success (run_callbacks cbs) func args s =
              (case run_callbacks cbs [PExn err] sv of
                 (Inl e, sx) \<Rightarrow> (Inl e, sx)
               | (Inr v, sx) \<Rightarrow> (Inl err, sx))"
    if "is_ValidationError err"
    using assms that by (simp add: wrapper_def)
  have all: "wrapper enter on_success (run_callbacks cbs) func args s =
              (Inl err, sv\<lparr>world := fold (\<lambda>cb. f cb [PExn err]) cbs (world sv)\<rparr>)"
    if "is_ValidationError err"
      and "\<forall>cb\<in>set cbs. qualname cb \<notin> in_call sv \<and> call cb = world_call (f cb)"
    using general [OF that(1)] run_callbacks_world_calls [OF that(2), of "[PExn err]"]
    by simp
  have other: "wrapper enter on_success on_error func args s = (Inl err, sv)"
    if "\<not> is_ValidationError err"
    using assms that by (simp add: wrapper_def)
  show ?thesis using general all other by blast
qed

text \<open>An instance: two logging \<^verbatim>\<open>on_error\<close> callbacks. The input x is rejected: both
  callbacks log the \<^verbatim>\<open>ValidationError\<close> and it is re-raised. A call without input makes
  the engine raise \<^verbatim>\<open>TypeError\<close>: no callback logs.\<close>

theorem validation_error_runs_on_error_then_reraises_witness:
  "wrapper (run_callbacks []) (run_callbacks [])
     (run_callbacks [bound_method ''StepA'' ''on_error'' (log_call ''StepA.on_error''),
                     bound_method ''StepB'' ''on_error'' (log_call ''StepB.on_error'')])
     (validate_python_method int_sv) [PStr ''x''] s0
   = (Inl (ValidationError ''int_parsing''),
      \<lparr>in_call = {},
       world = [PList [PStr ''validate_python'', PStr ''x''],
                PList [PStr ''StepA.on_error'', PExn (ValidationError ''int_parsing'')],
                PList [PStr ''StepB.on_error'', PExn (ValidationError ''int_parsing'')]]\<rparr>)
   \<and> wrapper (run_callbacks []) (run_callbacks [])
     (run_callbacks [bound_method ''StepA'' ''on_error'' (log_call ''StepA.on_error''),
                     bound_method ''StepB'' ''on_error'' (log_call ''StepB.on_error'')])
     (validate_python_method int_sv) [] s0
   = (Inl TypeError, \<lparr>in_call = {}, world = [PList [PStr ''validate_python'']]\<rparr>)"
proof -
  let ?cbs = "[bound_method ''StepA'' ''on_error'' (log_call ''StepA.on_error''),
               bound_method ''StepB'' ''on_error'' (log_call ''StepB.on_error'')]"
  let ?f = "\<lambda>cb args w. w @ [PList (PStr (qualname (cb :: (pyval list) pyfunc)) # args)]"
  let ?sv = "\<lparr>in_call = {}, world = [PList [PStr ''validate_python'', PStr ''x'']]\<rparr>
      :: (pyval list) state"
  let ?sv' = "\<lparr>in_call = {}, world = [PList [PStr ''validate_python'']]\<rparr>
      :: (pyval list) state"
  have ent: "run_callbacks [] args s0 = (Inr PNone, s0)" for args
    by simp
  have eng: "call (validate_python_method int_sv) [PStr ''x''] s0
      = (Inl (ValidationError ''int_parsing''), ?sv)"
    by (simp add: model_defs example_defs)
  have eng': "call (validate_python_method int_sv) [] s0 = (Inl TypeError, ?sv')"
    by (simp add: model_defs example_defs)
  have iv: "is_ValidationError (ValidationError ''int_parsing'')"
    and nv: "\<not> is_ValidationError TypeError"
    by simp_all
  have good: "\<forall>cb\<in>set ?cbs. qualname cb \<notin> in_call ?sv \<and> call cb = world_call (?f cb)"
    by (simp add: bound_method_def log_call_world_call)
  have a: "wrapper (run_callbacks []) (run_callbacks []) (run_callbacks ?cbs)
      (validate_python_method int_sv) [PStr ''x''] s0
      = (Inl (ValidationError ''int_parsing''),
         ?sv\<lparr>world := fold (\<lambda>cb. ?f cb [PExn (ValidationError ''int_parsing'')]) ?cbs
                    (world ?sv)\<rparr>)"
    using validation_error_runs_on_error_then_reraises [
        where enter = "run_callbacks []" and args = "[PStr ''x'']" and s = s0 and u = PNone
          and se = s0 and func = "validate_python_method int_sv"
          and err = "ValidationError ''int_parsing''" and sv = ?sv and cbs = ?cbs and f = ?f
          and on_success = "run_callbacks []", OF ent eng]
      good iv
    by blast
  have b: "wrapper (run_callbacks []) (run_callbacks []) (run_callbacks ?cbs)
      (validate_python_method int_sv) [] s0 = (Inl TypeError, ?sv')"
    using validation_error_runs_on_error_then_reraises [
        where enter = "run_callbacks []" and args = "[]" and s = s0 and u = PNone
          and se = s0 and func = "validate_python_method int_sv"
          and err = TypeError and sv = ?sv' and on_error = "run_callbacks ?cbs"
          and cbs = ?cbs and f = ?f and on_success = "run_callbacks []", OF ent eng']
      nv
    by blast
  show ?thesis
    using a b by (simp add: bound_method_def)
qed

text \<open>
  C5 as stated fails: the original error is not always re-raised. The \<^verbatim>\<open>on_error\<close>
  callback of plugin E raises; the engine rejects the input x with a
  \<^verbatim>\<open>ValidationError\<close>, the callback is invoked with it, and the wrapped call ends with
  the callback's exception, not with the \<^verbatim>\<open>ValidationError\<close>.
\<close>

theorem validation_error_replaced_by_on_error_failure:
  "(case create_schema_validator int_engine [plugin_E] PNone PNone PNone s0 of
      (Inl e, sa) \<Rightarrow> False
    | (Inr v, sa) \<Rightarrow>
        call (validator_validate_python v) [PStr ''x''] sa =
          (Inl (OtherError ''boom''),
           \<lparr>in_call = {''StepE.on_error''},
            world = [PList [PStr ''validate_python'', PStr ''x''],
                     PList [PStr ''E'', PExn (ValidationError ''int_parsing'')]]\<rparr>))"
  by (simp add: model_defs example_defs)

section \<open>Resolving the callbacks of the observers\<close>

text \<open>
  C9. An observer whose factory attribute is missing, or whose step construction raises
  \<^verbatim>\<open>AttributeError\<close> or \<^verbatim>\<open>TypeError\<close>, is skipped, alone and silently. The observers
  \<open>pre\<close> before it have given the callbacks \<open>cs\<close>; the observer \<open>p\<close> fails, leaving the
  state \<open>sq\<close>: the loop goes on with the observers \<open>post\<close> after it and the same \<open>cs\<close>.
  When the failure leaves the state as it is, wrapping an entry point with the observers
  \<open>pre @ p # post\<close> gives the very result of wrapping it with \<open>pre @ post\<close>: the same
  callbacks of the other observers run in every phase, around the same engine call.
\<close>

theorem failing_observer_is_skipped:
  assumes "gather_loop self step ct pre calls s = (Inr cs, sp)"
    and "(p step = None \<and> sq = sp) \<or>
       (\<exists>f e. p step = Some f
          \<and> f [schema self, config self, plugin_settings self] sp = (Inl e, sq)
          \<and> e \<in> {AttributeError, TypeError})"
  shows "gather_loop self step ct (pre @ p # post) calls s = gather_loop self step ct post cs sq
     \<and> ((p step = None \<or>
          (\<exists>f e. p step = Some f \<and> e \<in> {AttributeError, TypeError}
             \<and> (\<forall>t. f [schema self, config self, plugin_settings self] t = (Inl e, t))))
         \<and> EVENTS (name func) = Some step
        \<longrightarrow> plug_call (self\<lparr>plugins := pre @ p # post\<rparr>) func s'
            = plug_call (self\<lparr>plugins := pre @ post\<rparr>) func s')"
proof -
  have "gather_loop self step ct (p # post) cs sp = gather_loop self step ct post cs sq"
    using assms(2) by (rule gather_loop_skip)
  then have general: "gather_loop self step ct (pre @ p # post) calls s
      = gather_loop self step ct post cs sq"
    using assms(1) by (simp add: gather_loop_append)
  have pure: "plug_call (self\<lparr>plugins := pre @ p # post\<rparr>) func s'
      = plug_call (self\<lparr>plugins := pre @ post\<rparr>) func s'"
    if fail: "p step = None \<or>
          (\<exists>f e. p step = Some f \<and> e \<in> {AttributeError, TypeError}
             \<and> (\<forall>t. f [schema self, config self, plugin_settings self] t = (Inl e, t)))"
      and ev: "EVENTS (name func) = Some step"
  proof -
    have skip: "gather_loop self step ct' (p # post) cs' t = gather_loop self step ct' post cs' t"
      for ct' cs' t
      by (rule gather_loop_skip) (use fail in auto)
    have "gather_loop self step ct' (pre @ p # post) [] t
        = gather_loop self step ct' (pre @ post) [] t" for ct' t
      by (simp add: gather_loop_append skip del: gather_loop.simps
          split: prod.splits sum.splits)
    then have gc: "gather_calls (self\<lparr>plugins := pre @ p # post\<rparr>) func ct'
        = gather_calls (self\<lparr>plugins := pre @ post\<rparr>) func ct'" for ct'
      by (intro ext) (simp add: gather_calls_def ev gather_loop_plugins_irrelevant)
    have pe: "prepare_enter (self\<lparr>plugins := pre @ p # post\<rparr>) func
        = prepare_enter (self\<lparr>plugins := pre @ post\<rparr>) func"
      by (intro ext) (simp add: prepare_enter_def gc)
    have ps: "prepare_on_success (self\<lparr>plugins := pre @ p # post\<rparr>) func
        = prepare_on_success (self\<lparr>plugins := pre @ post\<rparr>) func"
      by (intro ext) (simp add: prepare_on_success_def gc)
    have pr: "prepare_on_error (self\<lparr>plugins := pre @ p # post\<rparr>) func
        = prepare_on_error (self\<lparr>plugins := pre @ post\<rparr>) func"
      by (intro ext) (simp add: prepare_on_error_def gc)
    show ?thesis
      unfolding plug_call_def pe ps pr by (rule refl)
  qed
  show ?thesis using general pure by blast
qed

text \<open>An instance: between plugins B and C, an observer with no attribute at all, then
  plugin T, whose step class raises \<^verbatim>\<open>TypeError\<close> when called with three arguments. The
  \<^verbatim>\<open>enter\<close> callbacks of B and C are collected, and wrapping with T among the plugins is
  wrapping without it.\<close>

theorem failing_observer_is_skipped_witness:
  "gather_loop (Plug_init PNone PNone None PNone) ''on_validate_python'' ''enter''
     ([plugin_B] @ Map.empty # [plugin_C]) [] s0
   = (Inr [bound_method ''StepB'' ''enter'' (log_call ''B''),
           bound_method ''StepC'' ''enter'' (log_call ''C'')], s0)
   \<and> gather_loop (Plug_init PNone PNone None PNone) ''on_validate_python'' ''enter''
     ([plugin_B] @ plugin_T # [plugin_C]) [] s0
   = (Inr [bound_method ''StepB'' ''enter'' (log_call ''B''),
           bound_method ''StepC'' ''enter'' (log_call ''C'')], s0)
   \<and> plug_call ((Plug_init PNone PNone None PNone)
                   \<lparr>plugins := [plugin_B] @ plugin_T # [plugin_C]\<rparr>)
        (validate_python_method int_sv) s0
   = plug_call ((Plug_init PNone PNone None PNone)\<lparr>plugins := [plugin_B] @ [plugin_C]\<rparr>)
        (validate_python_method int_sv) s0"
proof -
  let ?self = "Plug_init PNone PNone None PNone :: (pyval list) plug"
  let ?cB = "bound_method ''StepB'' ''enter'' (log_call ''B'')"
  let ?cC = "bound_method ''StepC'' ''enter'' (log_call ''C'')"
  let ?none = "Map.empty :: (pyval list) plugin"
  have pre: "gather_loop ?self ''on_validate_python'' ''enter'' [plugin_B] [] s0
      = (Inr [?cB], s0)"
    by (simp add: model_defs example_defs)
  have post: "gather_loop ?self ''on_validate_python'' ''enter'' [plugin_C] [?cB] s0
      = (Inr [?cB, ?cC], s0)"
    by (simp add: model_defs example_defs)
  have missing: "?none ''on_validate_python'' = None \<and> s0 = s0 \<or>
       (\<exists>f e. ?none ''on_validate_python'' = Some f
          \<and> f [schema ?self, config ?self, plugin_settings ?self] s0 = (Inl e, s0)
          \<and> e \<in> {AttributeError, TypeError})"
    by simp
  have ctor: "plugin_T ''on_validate_python'' = None \<and> s0 = s0 \<or>
       (\<exists>f e. plugin_T ''on_validate_python'' = Some f
          \<and> f [schema ?self, config ?self, plugin_settings ?self] s0 = (Inl e, s0)
          \<and> e \<in> {AttributeError, TypeError})"
    by (simp add: example_defs)
  have pure: "plugin_T ''on_validate_python'' = None \<or>
          (\<exists>f e. plugin_T ''on_validate_python'' = Some f \<and> e \<in> {AttributeError, TypeError}
             \<and> (\<forall>t. f [schema ?self, config ?self, plugin_settings ?self] t = (Inl e, t)))"
    by (simp add: example_defs)
  have ev: "EVENTS (name (validate_python_method int_sv)) = Some ''on_validate_python''"
    by (simp add: model_defs)
  have a: "gather_loop ?self ''on_validate_python'' ''enter'' ([plugin_B] @ ?none # [plugin_C])
      [] s0 = gather_loop ?self ''on_validate_python'' ''enter'' [plugin_C] [?cB] s0"
    using failing_observer_is_skipped [
        where self = ?self and step = "''on_validate_python''" and ct = "''enter''"
          and pre = "[plugin_B]" and calls = "[]" and s = s0 and cs = "[?cB]" and sp = s0
          and p = ?none and sq = s0 and post = "[plugin_C]"
          and func = "validate_python_method int_sv" and s' = s0, OF pre missing]
    by blast
  have b: "gather_loop ?self ''on_validate_python'' ''enter'' ([plugin_B] @ plugin_T # [plugin_C])
      [] s0 = gather_loop ?self ''on_validate_python'' ''enter'' [plugin_C] [?cB] s0
     \<and> plug_call (?self\<lparr>plugins := [plugin_B] @ plugin_T # [plugin_C]\<rparr>)
        (validate_python_method int_sv) s0
       = plug_call (?self\<lparr>plugins := [plugin_B] @ [plugin_C]\<rparr>)
        (validate_python_method int_sv) s0"
    using failing_observer_is_skipped [
        where self = ?self and step = "''on_validate_python''" and ct = "''enter''"
          and pre = "[plugin_B]" and calls = "[]" and s = s0 and cs = "[?cB]" and sp = s0
          and p = plugin_T and sq = s0 and post = "[plugin_C]"
          and func = "validate_python_method int_sv" and s' = s0, OF pre ctor]
      pure ev
    by blast
  show ?thesis
    using a b post by simp
qed

text \<open>
  C7 (as amended). For an observer that has the factory of the entry point's event,
  \<^verbatim>\<open>gather_calls\<close> constructs a step by calling the factory with exactly the schema, the
  config and the settings, and takes the callback of the requested slot from that step.
  This happens when the entry point is wrapped, once for each of the three slots: the
  wrapped callable that \<^verbatim>\<open>__call__\<close> returns is \<^verbatim>\<open>wrapper\<close> over the three lists gathered
  then, so a wrapped call constructs no step.
\<close>

theorem step_constructed_when_entry_point_is_wrapped:
  assumes "p step = Some f"
    and "f [schema self, config self, plugin_settings self] s = (Inr on_step, sc)"
    and "on_step ct = Some cb"
  shows "gather_loop self step ct (p # rest) calls s
           = gather_loop self step ct rest (calls @ [cb]) sc
     \<and> (plug_call self func s' = (Inr w, s'') \<longrightarrow>
          (\<exists>ec okc erc ta tb.
             gather_calls self func ''enter'' s' = (Inr ec, ta)
           \<and> gather_calls self func ''on_success'' ta = (Inr okc, tb)
           \<and> gather_calls self func ''on_error'' tb = (Inr erc, s'')
           \<and> w = func\<lparr>call := wrapper (run_callbacks ec) (run_callbacks okc)
                                  (run_callbacks erc) func\<rparr>))"
proof -
  have a: "gather_loop self step ct (p # rest) calls s
           = gather_loop self step ct rest (calls @ [cb]) sc"
    using assms by (simp add: gather_plugin_def suppress_def)
  have b: "plug_call self func s' = (Inr w, s'') \<longrightarrow>
          (\<exists>ec okc erc ta tb.
             gather_calls self func ''enter'' s' = (Inr ec, ta)
           \<and> gather_calls self func ''on_success'' ta = (Inr okc, tb)
           \<and> gather_calls self func ''on_error'' tb = (Inr erc, s'')
           \<and> w = func\<lparr>call := wrapper (run_callbacks ec) (run_callbacks okc)
                                  (run_callbacks erc) func\<rparr>)"
    by (auto simp: plug_call_def prepare_enter_def prepare_on_success_def prepare_on_error_def
        split: prod.splits sum.splits)
  show ?thesis using a b by blast
qed

theorem step_constructed_when_entry_point_is_wrapped_witness:
  "gather_loop
     (Plug_init (PStr ''schema'') (PStr ''config'') (Some [plugin_R]) (PStr ''settings''))
     ''on_validate_python'' ''enter'' [plugin_R] [] s0
   = (Inr [bound_method ''StepR'' ''enter'' (log_call ''R'')],
      \<lparr>in_call = {}, world = [PList [PStr ''new'', PStr ''schema'', PStr ''config'',
                                     PStr ''settings'']]\<rparr>)
   \<and> (\<exists>w s'' ec okc erc ta tb.
        plug_call
          (Plug_init (PStr ''schema'') (PStr ''config'') (Some [plugin_R]) (PStr ''settings''))
          (validate_python_method int_sv) s0 = (Inr w, s'')
      \<and> gather_calls
          (Plug_init (PStr ''schema'') (PStr ''config'') (Some [plugin_R]) (PStr ''settings''))
          (validate_python_method int_sv) ''enter'' s0 = (Inr ec, ta)
      \<and> gather_calls
          (Plug_init (PStr ''schema'') (PStr ''config'') (Some [plugin_R]) (PStr ''settings''))
          (validate_python_method int_sv) ''on_success'' ta = (Inr okc, tb)
      \<and> gather_calls
          (Plug_init (PStr ''schema'') (PStr ''config'') (Some [plugin_R]) (PStr ''settings''))
          (validate_python_method int_sv) ''on_error'' tb = (Inr erc, s'')
      \<and> w = (validate_python_method int_sv)
            \<lparr>call := wrapper (run_callbacks ec) (run_callbacks okc) (run_callbacks erc)
                       (validate_python_method int_sv)\<rparr>)"
proof -
  let ?self = "Plug_init (PStr ''schema'') (PStr ''config'') (Some [plugin_R]) (PStr ''settings'')
      :: (pyval list) plug"
  let ?st = "[''enter'' \<mapsto> bound_method ''StepR'' ''enter'' (log_call ''R'')] :: (pyval list) step"
  let ?sc = "\<lparr>in_call = {}, world = [PList [PStr ''new'', PStr ''schema'', PStr ''config'',
                                     PStr ''settings'']]\<rparr> :: (pyval list) state"
  let ?cb = "bound_method ''StepR'' ''enter'' (log_call ''R'')"
  let ?func = "validate_python_method int_sv"
  have attr: "plugin_R ''on_validate_python'' = Some (recording_step_type ?st)"
    by (simp add: example_defs)
  have ctor: "recording_step_type ?st [schema ?self, config ?self, plugin_settings ?self] s0
      = (Inr ?st, ?sc)"
    by (simp add: example_defs Plug_init_def)
  have slot: "?st ''enter'' = Some ?cb"
    by simp
  obtain w s'' where pc: "plug_call ?self ?func s0 = (Inr w, s'')"
    by (simp add: model_defs example_defs)
  have both: "gather_loop ?self ''on_validate_python'' ''enter'' (plugin_R # []) [] s0
      = gather_loop ?self ''on_validate_python'' ''enter'' [] ([] @ [?cb]) ?sc
     \<and> (plug_call ?self ?func s0 = (Inr w, s'') \<longrightarrow>
         (\<exists>ec okc erc ta tb.
             gather_calls ?self ?func ''enter'' s0 = (Inr ec, ta)
           \<and> gather_calls ?self ?func ''on_success'' ta = (Inr okc, tb)
           \<and> gather_calls ?self ?func ''on_error'' tb = (Inr erc, s'')
           \<and> w = ?func\<lparr>call := wrapper (run_callbacks ec) (run_callbacks okc)
                                   (run_callbacks erc) ?func\<rparr>))"
    by (rule step_constructed_when_entry_point_is_wrapped [
        where p = plugin_R and step = "''on_validate_python''"
          and f = "recording_step_type ?st" and self = ?self and s = s0 and on_step = ?st
          and sc = ?sc and ct = "''enter''" and cb = ?cb, OF attr ctor slot])
  have first: "gather_loop ?self ''on_validate_python'' ''enter'' [plugin_R] [] s0
      = (Inr [?cb], ?sc)"
    using both by simp
  have second: "\<exists>ec okc erc ta tb.
             gather_calls ?self ?func ''enter'' s0 = (Inr ec, ta)
           \<and> gather_calls ?self ?func ''on_success'' ta = (Inr okc, tb)
           \<and> gather_calls ?self ?func ''on_error'' tb = (Inr erc, s'')
           \<and> w = ?func\<lparr>call := wrapper (run_callbacks ec) (run_callbacks okc)
                                   (run_callbacks erc) ?func\<rparr>"
    using both pc by blast
  show ?thesis
    using first second pc by blast
qed

text \<open>
  C7 as stated fails: no step is constructed per wrapped call, and the factory receives
  no entry-point-specific argument. Creating the validator calls the step class of
  plugin R six times (three slots for each of the two entry points), each time with
  exactly the schema, the config and the settings. Validating 5 afterwards adds to the
  log the entry of the \<^verbatim>\<open>enter\<close> callback and the engine's, and no construction.
\<close>

theorem steps_constructed_at_creation_only:
  "(case create_schema_validator int_engine [plugin_R]
           (PStr ''schema'') (PStr ''config'') (PStr ''settings'') s0 of
      (Inl e, sa) \<Rightarrow> False
    | (Inr v, sa) \<Rightarrow>
        world sa = replicate 6 (PList [PStr ''new'', PStr ''schema'', PStr ''config'',
                                       PStr ''settings''])
        \<and> (case call (validator_validate_python v) [PInt 5] sa of
             (r, sb) \<Rightarrow>
               r = Inr (PInt 5) \<and>
               world sb = world sa @ [PList [PStr ''R'', PInt 5],
                                     PList [PStr ''validate_python'', PInt 5]]))"
  by (simp add: model_defs example_defs numeral_eq_Suc)

section \<open>The validator without observers\<close>

text \<open>
  C6. With no observer registered, \<^verbatim>\<open>create_schema_validator\<close> returns what the engine's
  constructor returns (or raises what it raises) and changes nothing; the entry points
  of the validator it returns are the engine's own, so on every input and in every state
  they return the same value or raise the same exception, and leave the same state.
  The same holds for a \<^verbatim>\<open>PluggableSchemaValidator\<close> built over an empty set of plugins:
  its two wrapped entry points are the engine's.
\<close>

theorem validator_without_observers_is_engine:
  "create_schema_validator new_sv [] schema' config' settings s =
     (case new_sv schema' config' of
        Inl e \<Rightarrow> (Inl e, s)
      | Inr sv \<Rightarrow> (Inr (Plain sv), s))
   \<and> call (validator_validate_json (Plain sv)) args t = sv_validate_json sv args t
   \<and> call (validator_validate_python (Plain sv)) args t = sv_validate_python sv args t
   \<and> PluggableSchemaValidator_init new_sv schema' config' [] settings s =
     (case new_sv schema' config' of
        Inl e \<Rightarrow> (Inl e, s)
      | Inr sv \<Rightarrow>
          (Inr \<lparr>schema_validator = sv,
                plug = Plug_init schema' config' (Some []) settings,
                validate_json = validate_json_method sv,
                validate_python = validate_python_method sv\<rparr>, s))
   \<and> wrapper (run_callbacks []) (run_callbacks []) (run_callbacks []) func args t
       = call func args t"
  by (simp add: create_schema_validator_def validate_json_method_def
      validate_python_method_def pluggable_without_plugins wrapper_no_callbacks)

end
